theory Spec2Isabelle
  imports Complex_Main "HOL-Library.Monad_Syntax" "HOL-Library.Sublist"
begin

section \<open>Python values, exceptions and the console\<close>

text \<open>
  The repository is one Python file, \<^verbatim>\<open>assets/conteudo/code-quality/main.py\<close>, of paired
  low-quality and higher-quality snippets. Each function embedded below has the name it
  has in the source. Where the source uses a name twice, the higher-quality version
  keeps it and the low-quality one is marked \<open>_lq\<close>; the three \<^verbatim>\<open>greet\<close> are told apart
  by their section (the printing one is \<open>greet_print\<close>), the test that takes the
  fixture is \<open>test_greet_capsys\<close>, and the \<^verbatim>\<open>fibonacci_of\<close> with the cache is
  \<open>fibonacci_of_memo\<close>.

  Conventions of the embedding:
  \<^item> a Python \<^verbatim>\<open>int\<close> is an \<^typ>\<open>int\<close> (unbounded);
  \<^item> a Python \<^verbatim>\<open>float\<close> is idealised as a \<^typ>\<open>real\<close>: rounding, infinities and
    NaN are not represented. What is kept of the floating-point format is its finite
    range, because it decides whether a conversion from \<^verbatim>\<open>int\<close> raises;
  \<^item> a Python \<^verbatim>\<open>str\<close> is the \<^typ>\<open>string\<close> of the bytes of its UTF-8 encoding. The
    encoding is injective and takes a concatenation to the concatenation of the
    encodings, so concatenation and equality of \<^verbatim>\<open>str\<close> values are those of the byte
    strings, and a statement about every \<^typ>\<open>string\<close> covers every \<^verbatim>\<open>str\<close>;
  \<^item> a raised exception is the \<open>Inl\<close> branch of a sum, a returned value the \<open>Inr\<close> branch;
  \<^item> the console is the list of lines printed so far;
  \<^item> a call that never returns is \<open>None\<close> in an outer \<open>option\<close>
    (\<^theory_text>\<open>partial_function (option)\<close>). The interpreter's recursion limit, like
    memory and time, is a resource bound outside the model.
\<close>

datatype py_error =
  KeyError | ZeroDivisionError | OverflowError | ValueError | TypeError | AssertionError

datatype py_num = PyInt int | PyFloat real

datatype py_value = PyNum py_num | PyStr string

type_synonym console = "string list"

definition py_print :: "string \<Rightarrow> console \<Rightarrow> console" where
  "py_print line out = out @ [line]"

text \<open>
  A real number is outside the range of a double when rounding it to nearest (ties to
  even) gives a magnitude of \<open>2 ^ 1024\<close> or more, that is from the midpoint between the
  largest double \<open>2 ^ 1024 - 2 ^ 971\<close> and \<open>2 ^ 1024\<close> on.
\<close>

definition float_overflow :: "real \<Rightarrow> bool" where
  "float_overflow x \<longleftrightarrow> 2 ^ 1024 - 2 ^ 970 \<le> \<bar>x\<bar>"

text \<open>The conversion of a number to \<^verbatim>\<open>float\<close>: an \<^verbatim>\<open>int\<close> too large raises OverflowError.\<close>

definition to_float :: "py_num \<Rightarrow> py_error + real" where
  "to_float v =
     (case v of
        PyInt n \<Rightarrow> if float_overflow (real_of_int n) then Inl OverflowError
                   else Inr (real_of_int n)
      | PyFloat x \<Rightarrow> Inr x)"

text \<open>
  The builtin \<^verbatim>\<open>float(v)\<close>. The grammar of float literals is the interpreter's, not the
  repository's: the parser of strings is a parameter, \<open>None\<close> for a string that is not a
  float literal, on which \<^verbatim>\<open>float\<close> raises ValueError.
\<close>

definition py_float :: "(string \<Rightarrow> real option) \<Rightarrow> py_value \<Rightarrow> py_error + real" where
  "py_float parse v =
     (case v of
        PyNum x \<Rightarrow> to_float x
      | PyStr s \<Rightarrow> (case parse s of None \<Rightarrow> Inl ValueError | Some x \<Rightarrow> Inr x))"

text \<open>
  A concrete parser to instantiate the parameter with: the non-empty strings of ASCII
  digits, read in base ten (a fragment of the float literals).
\<close>

definition digit_value :: "char \<Rightarrow> nat option" where
  "digit_value ch =
     (if of_char (CHR ''0'') \<le> (of_char ch :: nat) \<and> (of_char ch :: nat) \<le> of_char (CHR ''9'')
      then Some (of_char ch - of_char (CHR ''0'')) else None)"

fun digits_value :: "nat \<Rightarrow> string \<Rightarrow> nat option" where
  "digits_value acc [] = Some acc"
| "digits_value acc (ch # s) =
     (case digit_value ch of None \<Rightarrow> None | Some d \<Rightarrow> digits_value (10 * acc + d) s)"

definition digits_literal :: "string \<Rightarrow> real option" where
  "digits_literal s = (if s = [] then None else map_option real (digits_value 0 s))"

text \<open>
  The operator \<^verbatim>\<open>a / b\<close> on numbers. Two ints are divided exactly and the quotient is
  converted; otherwise both operands are converted first, left to right, and the
  divisor is tested afterwards.
\<close>

definition py_truediv :: "py_num \<Rightarrow> py_num \<Rightarrow> py_error + real" where
  "py_truediv a b =
     (case (a, b) of
        (PyInt m, PyInt n) \<Rightarrow>
          if n = 0 then Inl ZeroDivisionError
          else if float_overflow (real_of_int m / real_of_int n) then Inl OverflowError
          else Inr (real_of_int m / real_of_int n)
      | _ \<Rightarrow>
          (case to_float a of
             Inl e \<Rightarrow> Inl e
           | Inr x \<Rightarrow>
               (case to_float b of
                  Inl e \<Rightarrow> Inl e
                | Inr y \<Rightarrow> if y = 0 then Inl ZeroDivisionError else Inr (x / y))))"

text \<open>The builtin \<^verbatim>\<open>sum(xs)\<close>: starts from 0 and adds the elements from left to right.\<close>

definition py_sum :: "int list \<Rightarrow> int" where
  "py_sum xs = foldl (+) 0 xs"

section \<open>Functionality: the higher-quality \<^verbatim>\<open>add_numbers\<close>\<close>

text \<open>
  \<^verbatim>\<open>
  def add_numbers(a: int | float, b: int | float) -> float:
      a, b = float(a), float(b)
      return a + b
  \<close>
  The tuple on the right is evaluated left to right, so a failing \<^verbatim>\<open>float(a)\<close> raises
  before \<^verbatim>\<open>float(b)\<close> is tried. Nothing is caught.
\<close>

definition add_numbers :: "(string \<Rightarrow> real option) \<Rightarrow> py_value \<Rightarrow> py_value \<Rightarrow> py_error + real" where
  "add_numbers parse a b =
     (case py_float parse a of
        Inl e \<Rightarrow> Inl e
      | Inr a' \<Rightarrow>
          (case py_float parse b of
             Inl e \<Rightarrow> Inl e
           | Inr b' \<Rightarrow> Inr (a' + b')))"

section \<open>Reusability: the higher-quality \<^verbatim>\<open>greet\<close>\<close>

text \<open>
  \<^verbatim>\<open>
  def greet(name: str) -> str:
      return f"Hello {name}!"
  \<close>
\<close>

definition greet_reusability :: "string \<Rightarrow> string" where
  "greet_reusability name = ''Hello '' @ name @ ''!''"

section \<open>Maintainability: \<^verbatim>\<open>process\<close>, \<^verbatim>\<open>clean_data\<close> and \<^verbatim>\<open>calculate_total\<close>\<close>

text \<open>
  \<^verbatim>\<open>
  def process(numbers):
      cleaned = [number for number in numbers if number >= 0]
      return sum(cleaned)

  def clean_data(numbers: list[int]) -> list[int]:
      return [number for number in numbers if number >= 0]

  def calculate_total (numbers: list[int]) -> int:
      return sum(numbers)
  \<close>
\<close>

definition process :: "int list \<Rightarrow> int" where
  "process numbers = (let cleaned = [number \<leftarrow> numbers. number \<ge> 0] in py_sum cleaned)"

definition clean_data :: "int list \<Rightarrow> int list" where
  "clean_data numbers = [number \<leftarrow> numbers. number \<ge> 0]"

definition calculate_total :: "int list \<Rightarrow> int" where
  "calculate_total numbers = py_sum numbers"

section \<open>Robustness: the higher-quality \<^verbatim>\<open>divide_numbers\<close>\<close>

text \<open>
  \<^verbatim>\<open>
  def divide_numbers(a: float, b: float) -> float | None:
      try:
          return a / b
      except ZeroDivisionError:
          print("Error: can\<acute>t divide by zero")
  \<close>
  The handler catches ZeroDivisionError only; after the print the function falls off its
  end and returns \<^verbatim>\<open>None\<close>. Any other exception of \<^verbatim>\<open>a / b\<close> propagates. The arguments
  are numbers: the file itself calls the function on ints.
\<close>

definition zero_division_message :: string where
  "zero_division_message = ''Error: can'' @ [CHR 0xC2, CHR 0xB4] @ ''t divide by zero''"

definition divide_numbers ::
    "py_num \<Rightarrow> py_num \<Rightarrow> console \<Rightarrow> (py_error + real option) \<times> console" where
  "divide_numbers a b out =
     (case py_truediv a b of
        Inr q \<Rightarrow> (Inr (Some q), out)
      | Inl e \<Rightarrow>
          if e = ZeroDivisionError then (Inr None, py_print zero_division_message out)
          else (Inl e, out))"

section \<open>Testability: the higher-quality \<^verbatim>\<open>greet\<close> and its test\<close>

text \<open>
  \<^verbatim>\<open>
  def greet(name: str) -> str:
      return f"Hello, {name}!"

  def test_greet():
      assert greet("Alice") == "Hello, Alice!"
  \<close>
\<close>

definition greet_testability :: "string \<Rightarrow> string" where
  "greet_testability name = ''Hello, '' @ name @ ''!''"

definition test_greet :: "py_error + unit" where
  "test_greet = (if greet_testability ''Alice'' = ''Hello, Alice!'' then Inr () else Inl AssertionError)"

section \<open>Efficiency: the two versions of \<^verbatim>\<open>fibonacci_of\<close>\<close>

text \<open>
  \<^verbatim>\<open>
  def fibonacci_of(n):
      if n in {0, 1}:
          return n
      return fibonacci_of(n - 1) + fibonacci_of(n -2)
  \<close>
  On a negative argument the recursion never reaches a base case.
\<close>

partial_function (option) fibonacci_of :: "int \<Rightarrow> int option" where
  "fibonacci_of n =
     (if n \<in> {0, 1} then Some n
      else do {
        a \<leftarrow> fibonacci_of (n - 1);
        b \<leftarrow> fibonacci_of (n - 2);
        Some (a + b)
      })"

declare fibonacci_of.simps [code]

text \<open>
  \<^verbatim>\<open>
  cache = {0 : 0, 1: 1} # dictionary to store calculated results.
  def fibonacci_of(n):
      if n in cache: # if the result is already in the cache, return it directly.
          return cache[n]
      # if not, the it calculates recursively and stores in cache
      cache[n] = fibonacci_of(n - 1) + fibonacci_of(n -2)
      return cache[n]
  \<close>
  The dictionary is a module-level variable that every call reads and writes, so the
  model passes it in and returns it, also when an exception is raised. A subscript
  \<^verbatim>\<open>cache[n]\<close> on a missing key raises KeyError.
\<close>

type_synonym py_dict = "int \<rightharpoonup> int"

definition getitem :: "py_dict \<Rightarrow> int \<Rightarrow> py_error + int" where
  "getitem d k = (case d k of None \<Rightarrow> Inl KeyError | Some v \<Rightarrow> Inr v)"

definition cache_init :: py_dict where
  "cache_init = [0 \<mapsto> 0, 1 \<mapsto> 1]"

partial_function (option) fibonacci_of_memo ::
    "int \<Rightarrow> py_dict \<Rightarrow> ((py_error + int) \<times> py_dict) option" where
  "fibonacci_of_memo n cache =
     (if n \<in> dom cache then Some (getitem cache n, cache)
      else do {
        (r1, c1) \<leftarrow> fibonacci_of_memo (n - 1) cache;
        case r1 of
          Inl e \<Rightarrow> Some (Inl e, c1)
        | Inr a \<Rightarrow> do {
            (r2, c2) \<leftarrow> fibonacci_of_memo (n - 2) c1;
            case r2 of
              Inl e \<Rightarrow> Some (Inl e, c2)
            | Inr b \<Rightarrow>
                (let c3 = c2(n \<mapsto> a + b) in Some (getitem c3 n, c3))
          }
      })"

declare fibonacci_of_memo.simps [code]

text \<open>
  The demonstrations \<^verbatim>\<open>[fibonacci_of(n) for n in range(35)]\<close>: the calls are made in the
  order of the list, the memoized ones on the cache the previous call left.
\<close>

definition py_range :: "nat \<Rightarrow> int list" where
  "py_range k = map int [0..<k]"

fun fibonacci_list :: "int list \<Rightarrow> int list option" where
  "fibonacci_list [] = Some []"
| "fibonacci_list (n # ns) =
     do {
       v \<leftarrow> fibonacci_of n;
       vs \<leftarrow> fibonacci_list ns;
       Some (v # vs)
     }"

fun fibonacci_list_memo ::
    "int list \<Rightarrow> py_dict \<Rightarrow> ((py_error + int list) \<times> py_dict) option" where
  "fibonacci_list_memo [] cache = Some (Inr [], cache)"
| "fibonacci_list_memo (n # ns) cache =
     do {
       (r1, c1) \<leftarrow> fibonacci_of_memo n cache;
       case r1 of
         Inl e \<Rightarrow> Some (Inl e, c1)
       | Inr v \<Rightarrow> do {
           (r2, c2) \<leftarrow> fibonacci_list_memo ns c1;
           case r2 of
             Inl e \<Rightarrow> Some (Inl e, c2)
           | Inr vs \<Rightarrow> Some (Inr (v # vs), c2)
         }
     }"

section \<open>The remaining snippets\<close>

text \<open>
  The operators \<^verbatim>\<open>+\<close> and \<^verbatim>\<open>*\<close> on numbers and strings are the interpreter's: they
  give a value or raise, and do nothing else. They are parameters of the functions that
  use them, as is \<^verbatim>\<open>str.strip\<close>.
\<close>

type_synonym binop = "py_value \<Rightarrow> py_value \<Rightarrow> py_error + py_value"

text \<open>
  \<^verbatim>\<open>
  def add_numbers(a,b):
      return a + b
  \<close>
\<close>

definition add_numbers_lq :: "binop \<Rightarrow> py_value \<Rightarrow> py_value \<Rightarrow> py_error + py_value" where
  "add_numbers_lq op_add a b = op_add a b"

text \<open>
  \<^verbatim>\<open>
  def ca(w, h):
      return w * h

  def calculate_rectangle_area(width: float, height: float) -> float:
      return width * height
  \<close>
\<close>

definition ca :: "binop \<Rightarrow> py_value \<Rightarrow> py_value \<Rightarrow> py_error + py_value" where
  "ca op_mul w h = op_mul w h"

definition calculate_rectangle_area :: "binop \<Rightarrow> py_value \<Rightarrow> py_value \<Rightarrow> py_error + py_value" where
  "calculate_rectangle_area op_mul width height = op_mul width height"

text \<open>
  \<^verbatim>\<open>
  def multiply(a, b):
      return a * b
  \<close>
  The higher-quality \<^verbatim>\<open>multiply\<close> has the same body under a docstring and annotations.
\<close>

definition multiply_lq :: "binop \<Rightarrow> py_value \<Rightarrow> py_value \<Rightarrow> py_error + py_value" where
  "multiply_lq op_mul a b = op_mul a b"

definition multiply :: "binop \<Rightarrow> py_value \<Rightarrow> py_value \<Rightarrow> py_error + py_value" where
  "multiply op_mul a b = op_mul a b"

text \<open>
  \<^verbatim>\<open>
  def greet_alice():
      return "Hello, Alice!"
  \<close>
\<close>

definition greet_alice :: string where
  "greet_alice = ''Hello, Alice!''"

text \<open>
  \<^verbatim>\<open>
  def divide_numbers(a, b):
      return a / b
  \<close>
\<close>

definition divide_numbers_lq :: "py_num \<Rightarrow> py_num \<Rightarrow> py_error + real" where
  "divide_numbers_lq a b = py_truediv a b"

text \<open>
  \<^verbatim>\<open>
  def greet(name):
      print(f"Hello, {name}!")

  def test_greet(capsys):
      greet("Alice")
      captured = capsys.readouterr()
      assert captured.out.strip() == "Hello, Alice!"
  \<close>
  This \<^verbatim>\<open>greet\<close> returns \<^verbatim>\<open>None\<close>; its effect is the line on the console. In the test the
  console is the capture buffer of the fixture \<^verbatim>\<open>capsys\<close>, an argument of the test:
  \<^verbatim>\<open>readouterr\<close> returns its text, every line ended by a newline, and empties it.
\<close>

definition greet_print :: "string \<Rightarrow> console \<Rightarrow> console" where
  "greet_print name out = py_print (''Hello, '' @ name @ ''!'') out"

definition readouterr :: "console \<Rightarrow> string \<times> console" where
  "readouterr capsys = (concat (map (\<lambda>line. line @ [CHR 0x0A]) capsys), [])"

definition test_greet_capsys :: "(string \<Rightarrow> string) \<Rightarrow> console \<Rightarrow> (py_error + unit) \<times> console" where
  "test_greet_capsys str_strip capsys =
     (let capsys1 = greet_print ''Alice'' capsys;
          (captured_out, capsys2) = readouterr capsys1
      in (if str_strip captured_out = ''Hello, Alice!'' then Inr () else Inl AssertionError,
          capsys2))"

section \<open>Calls on the state of the program\<close>

text \<open>
  What outlives a call, outside its own locals, is the module-level dictionary
  \<^verbatim>\<open>cache\<close> and the console; the other module-level names are bound once and never
  written by a function. A call of an example function runs on that state and leaves a
  state behind; \<open>None\<close> is a call that does not return. A test under pytest starts on a
  fresh capture buffer.
\<close>

record program_state =
  cache_of :: py_dict
  console_of :: console

record builtins =
  op_add_of :: binop
  op_mul_of :: binop
  float_literal_of :: "string \<Rightarrow> real option"
  str_strip_of :: "string \<Rightarrow> string"

datatype py_object = NoneObj | Val py_value | IntList "int list"

definition IntObj :: "int \<Rightarrow> py_object" where
  "IntObj n = Val (PyNum (PyInt n))"

definition FloatObj :: "real \<Rightarrow> py_object" where
  "FloatObj x = Val (PyNum (PyFloat x))"

definition StrObj :: "string \<Rightarrow> py_object" where
  "StrObj s = Val (PyStr s)"

definition OptFloatObj :: "real option \<Rightarrow> py_object" where
  "OptFloatObj q = (case q of None \<Rightarrow> NoneObj | Some x \<Rightarrow> FloatObj x)"

datatype example_call =
    Add_numbers_lq py_value py_value
  | Add_numbers py_value py_value
  | Ca py_value py_value
  | Calculate_rectangle_area py_value py_value
  | Multiply_lq py_value py_value
  | Multiply py_value py_value
  | Greet_alice
  | Greet_reusability string
  | Process "int list"
  | Clean_data "int list"
  | Calculate_total "int list"
  | Divide_numbers_lq py_num py_num
  | Divide_numbers py_num py_num
  | Greet_print string
  | Test_greet_capsys
  | Greet_testability string
  | Test_greet
  | Fibonacci_of int
  | Fibonacci_of_memo int

fun run ::
    "builtins \<Rightarrow> example_call \<Rightarrow> program_state \<Rightarrow> ((py_error + py_object) \<times> program_state) option" where
  "run bi (Add_numbers_lq a b) s = Some (map_sum id Val (add_numbers_lq (op_add_of bi) a b), s)"
| "run bi (Add_numbers a b) s = Some (map_sum id FloatObj (add_numbers (float_literal_of bi) a b), s)"
| "run bi (Ca w h) s = Some (map_sum id Val (ca (op_mul_of bi) w h), s)"
| "run bi (Calculate_rectangle_area width height) s =
     Some (map_sum id Val (calculate_rectangle_area (op_mul_of bi) width height), s)"
| "run bi (Multiply_lq a b) s = Some (map_sum id Val (multiply_lq (op_mul_of bi) a b), s)"
| "run bi (Multiply a b) s = Some (map_sum id Val (multiply (op_mul_of bi) a b), s)"
| "run bi Greet_alice s = Some (Inr (StrObj greet_alice), s)"
| "run bi (Greet_reusability name) s = Some (Inr (StrObj (greet_reusability name)), s)"
| "run bi (Process numbers) s = Some (Inr (IntObj (process numbers)), s)"
| "run bi (Clean_data numbers) s = Some (Inr (IntList (clean_data numbers)), s)"
| "run bi (Calculate_total numbers) s = Some (Inr (IntObj (calculate_total numbers)), s)"
| "run bi (Divide_numbers_lq a b) s = Some (map_sum id FloatObj (divide_numbers_lq a b), s)"
| "run bi (Divide_numbers a b) s =
     (let (r, out) = divide_numbers a b (console_of s)
      in Some (map_sum id OptFloatObj r, s\<lparr>console_of := out\<rparr>))"
| "run bi (Greet_print name) s =
     Some (Inr NoneObj, s\<lparr>console_of := greet_print name (console_of s)\<rparr>)"
| "run bi Test_greet_capsys s =
     Some (map_sum id (\<lambda>u. NoneObj) (fst (test_greet_capsys (str_strip_of bi) [])), s)"
| "run bi (Greet_testability name) s = Some (Inr (StrObj (greet_testability name)), s)"
| "run bi Test_greet s = Some (map_sum id (\<lambda>u. NoneObj) test_greet, s)"
| "run bi (Fibonacci_of n) s = map_option (\<lambda>v. (Inr (IntObj v), s)) (fibonacci_of n)"
| "run bi (Fibonacci_of_memo n) s =
     map_option (\<lambda>(r, c). (map_sum id IntObj r, s\<lparr>cache_of := c\<rparr>))
       (fibonacci_of_memo n (cache_of s))"

text \<open>
  An instance of the builtins for closed examples, each a fragment of the interpreter's:
  the sum and the product of two ints (this instance raises TypeError on other
  operands), the float literals that are strings of digits, and \<^verbatim>\<open>strip\<close> on the ASCII
  whitespace.
\<close>

definition int_add :: binop where
  "int_add a b =
     (case (a, b) of
        (PyNum (PyInt m), PyNum (PyInt n)) \<Rightarrow> Inr (PyNum (PyInt (m + n)))
      | _ \<Rightarrow> Inl TypeError)"

definition int_mul :: binop where
  "int_mul a b =
     (case (a, b) of
        (PyNum (PyInt m), PyNum (PyInt n)) \<Rightarrow> Inr (PyNum (PyInt (m * n)))
      | _ \<Rightarrow> Inl TypeError)"

definition ascii_space :: "char \<Rightarrow> bool" where
  "ascii_space ch \<longleftrightarrow>
     ch \<in> set [CHR 0x09, CHR 0x0A, CHR 0x0B, CHR 0x0C, CHR 0x0D,
               CHR 0x1C, CHR 0x1D, CHR 0x1E, CHR 0x1F, CHR 0x20]"

definition ascii_strip :: "string \<Rightarrow> string" where
  "ascii_strip s = rev (dropWhile ascii_space (rev (dropWhile ascii_space s)))"

definition example_builtins :: builtins where
  "example_builtins =
     \<lparr>op_add_of = int_add, op_mul_of = int_mul,
      float_literal_of = digits_literal, str_strip_of = ascii_strip\<rparr>"

definition state_init :: program_state where
  "state_init = \<lparr>cache_of = cache_init, console_of = []\<rparr>"

section \<open>Specification notions\<close>

text \<open>The Fibonacci numbers, by their recurrence.\<close>

fun fibonacci_number :: "nat \<Rightarrow> int" where
  "fibonacci_number 0 = 0"
| "fibonacci_number (Suc 0) = 1"
| "fibonacci_number (Suc (Suc k)) = fibonacci_number (Suc k) + fibonacci_number k"

text \<open>
  The invariant of the cache: every entry has a non-negative key \<open>k\<close> and holds the
  \<open>k\<close>-th Fibonacci number.
\<close>

definition fib_entries :: "py_dict \<Rightarrow> bool" where
  "fib_entries c \<longleftrightarrow> (\<forall>k v. c k = Some v \<longrightarrow> 0 \<le> k \<and> v = fibonacci_number (nat k))"

text \<open>
  The states the module-level cache can be in: the initial dictionary, and what a
  returning call of the memoized function leaves. Nothing else in the file writes it.
\<close>

inductive reachable :: "py_dict \<Rightarrow> bool" where
  initial: "reachable cache_init"
| call: "reachable c \<Longrightarrow> fibonacci_of_memo n c = Some (r, c') \<Longrightarrow> reachable c'"

text \<open>The number a Python number stands for.\<close>

definition num_value :: "py_num \<Rightarrow> real" where
  "num_value v = (case v of PyInt n \<Rightarrow> real_of_int n | PyFloat x \<Rightarrow> x)"

section \<open>Lemmas on the Fibonacci functions\<close>

lemma fibonacci_number_step:
  assumes "2 \<le> n"
  shows "fibonacci_number (nat n) = fibonacci_number (nat (n - 1)) + fibonacci_number (nat (n - 2))"
proof -
  define k where "k = nat (n - 2)"
  from assms have "nat n = Suc (Suc k)" "nat (n - 1) = Suc k"
    by (simp_all add: k_def nat_diff_distrib Suc_nat_eq_nat_zadd1)
  then show ?thesis by (simp add: k_def)
qed

lemma fib_entries_init: "fib_entries cache_init"
  by (auto simp: fib_entries_def cache_init_def split: if_splits)

text \<open>
  Partial correctness of the memoized function, by induction on the computation: a call
  that returns from a cache satisfying the invariant returns the Fibonacci number of a
  non-negative argument, raises nothing, keeps every old entry and keeps the invariant.
\<close>

lemma memo_sound:
  assumes "fibonacci_of_memo n c = Some rc"
  shows "fib_entries c \<longrightarrow>
       fib_entries (snd rc) \<and> c \<subseteq>\<^sub>m snd rc \<and> 0 \<le> n \<and>
       fst rc = Inr (fibonacci_number (nat n)) \<and> snd rc n = Some (fibonacci_number (nat n))"
proof (rule fibonacci_of_memo.raw_induct
    [where P = "\<lambda>n c rc. fib_entries c \<longrightarrow>
       fib_entries (snd rc) \<and> c \<subseteq>\<^sub>m snd rc \<and> 0 \<le> n \<and>
       fst rc = Inr (fibonacci_number (nat n)) \<and> snd rc n = Some (fibonacci_number (nat n))",
     OF _ assms], goal_cases)
  case (1 f n c rc)
  show ?case
  proof
    assume inv: "fib_entries c"
    show "fib_entries (snd rc) \<and> c \<subseteq>\<^sub>m snd rc \<and> 0 \<le> n \<and>
       fst rc = Inr (fibonacci_number (nat n)) \<and> snd rc n = Some (fibonacci_number (nat n))"
    proof (cases "n \<in> dom c")
      case True
      then obtain v where v: "c n = Some v" by auto
      with inv have "0 \<le> n" "v = fibonacci_number (nat n)" by (auto simp: fib_entries_def)
      moreover from True 1(2) v have "rc = (Inr v, c)" by (simp add: getitem_def)
      ultimately show ?thesis using inv v by simp
    next
      case False
      with 1(2) obtain r1 c1 where s1: "f (n - 1) c = Some (r1, c1)"
        by (auto simp: bind_eq_Some_conv)
      from 1(1)[OF s1] inv have i1: "fib_entries c1" "c \<subseteq>\<^sub>m c1" "0 \<le> n - 1"
        "r1 = Inr (fibonacci_number (nat (n - 1)))" by auto
      from False 1(2) s1 i1(4) obtain r2 c2 where s2: "f (n - 2) c1 = Some (r2, c2)"
        by (auto simp: bind_eq_Some_conv)
      from 1(1)[OF s2] i1(1) have i2: "fib_entries c2" "c1 \<subseteq>\<^sub>m c2" "0 \<le> n - 2"
        "r2 = Inr (fibonacci_number (nat (n - 2)))" by auto
      let ?v = "fibonacci_number (nat (n - 1)) + fibonacci_number (nat (n - 2))"
      from False 1(2) s1 s2 i1(4) i2(4) have rc: "rc = (Inr ?v, c2(n \<mapsto> ?v))"
        by (simp add: getitem_def)
      from i2(3) have n2: "2 \<le> n" by simp
      have v: "?v = fibonacci_number (nat n)" using fibonacci_number_step[OF n2] by simp
      have "fib_entries (c2(n \<mapsto> ?v))"
        using i2(1) n2 v by (auto simp: fib_entries_def)
      moreover have "c2 \<subseteq>\<^sub>m c2(n \<mapsto> ?v)"
        using i2(1) v by (auto simp: map_le_def fib_entries_def)
      then have "c \<subseteq>\<^sub>m c2(n \<mapsto> ?v)"
        using i1(2) i2(2) map_le_trans by blast
      ultimately show ?thesis using rc v n2 by simp
    qed
  qed
qed

lemma memo_result:
  assumes "fibonacci_of_memo n c = Some (r, c')" "fib_entries c"
  shows "fib_entries c'" "c \<subseteq>\<^sub>m c'" "0 \<le> n"
    "r = Inr (fibonacci_number (nat n))" "c' n = Some (fibonacci_number (nat n))"
  using memo_sound[OF assms(1)] assms(2) by simp_all

text \<open>A cache from which every call on a non-negative argument returns.\<close>

lemma map_le_Some: "c \<subseteq>\<^sub>m c' \<Longrightarrow> c k = Some v \<Longrightarrow> c' k = Some v"
  by (metis domI map_le_def)

lemma reachable_entries: "reachable c \<Longrightarrow> fib_entries c \<and> c 0 = Some 0 \<and> c 1 = Some 1"
proof (induction rule: reachable.induct)
  case initial
  have "cache_init 0 = Some 0" "cache_init 1 = Some 1" by (simp_all add: cache_init_def)
  with fib_entries_init show ?case by simp
next
  case (call c n r c')
  from memo_result(1,2)[OF call.hyps(2)] call.IH show ?case
    by (auto intro: map_le_Some)
qed

lemma memo_total:
  "reachable c \<Longrightarrow> 0 \<le> n \<Longrightarrow>
     \<exists>c'. fibonacci_of_memo n c = Some (Inr (fibonacci_number (nat n)), c')"
proof (induction "nat n" arbitrary: n c rule: less_induct)
  case less
  note ok = reachable_entries[OF less.prems(1)]
  show ?case
  proof (cases "n \<in> dom c")
    case True
    then obtain v where v: "c n = Some v" by auto
    with ok have "v = fibonacci_number (nat n)"
      by (simp add: fib_entries_def)
    with True v show ?thesis
      by (subst fibonacci_of_memo.simps) (simp add: getitem_def)
  next
    case False
    with ok have n2: "2 \<le> n"
      using less.prems(2) by (cases "n = 0 \<or> n = 1") auto
    let ?a = "fibonacci_number (nat (n - 1))" and ?b = "fibonacci_number (nat (n - 2))"
    from n2 have "nat (n - 1) < nat n" "0 \<le> n - 1" by simp_all
    from less.hyps[OF this(1) less.prems(1) this(2)]
    obtain c1 where s1: "fibonacci_of_memo (n - 1) c = Some (Inr ?a, c1)" by blast
    have ok1: "reachable c1" by (rule reachable.call[OF less.prems(1) s1])
    from n2 have "nat (n - 2) < nat n" "0 \<le> n - 2" by simp_all
    from less.hyps[OF this(1) ok1 this(2)]
    obtain c2 where s2: "fibonacci_of_memo (n - 2) c1 = Some (Inr ?b, c2)" by blast
    have "fibonacci_of_memo n c = Some (Inr (?a + ?b), c2(n \<mapsto> ?a + ?b))"
      using False s1 s2 by (subst fibonacci_of_memo.simps) (simp add: getitem_def)
    then show ?thesis using fibonacci_number_step[OF n2] by simp
  qed
qed

lemma naive_total: "0 \<le> n \<Longrightarrow> fibonacci_of n = Some (fibonacci_number (nat n))"
proof (induction "nat n" arbitrary: n rule: less_induct)
  case less
  show ?case
  proof (cases "n \<in> {0, 1}")
    case True
    then show ?thesis by (subst fibonacci_of.simps) auto
  next
    case False
    with less.prems have n2: "2 \<le> n" by auto
    from n2 have "nat (n - 1) < nat n" "0 \<le> n - 1" by simp_all
    from less.hyps[OF this] have s1: "fibonacci_of (n - 1) = Some (fibonacci_number (nat (n - 1)))" .
    from n2 have "nat (n - 2) < nat n" "0 \<le> n - 2" by simp_all
    from less.hyps[OF this] have s2: "fibonacci_of (n - 2) = Some (fibonacci_number (nat (n - 2)))" .
    show ?thesis
      using False s1 s2 fibonacci_number_step[OF n2]
      by (subst fibonacci_of.simps) simp
  qed
qed

text \<open>On a negative argument neither version returns.\<close>

lemma naive_returns_nonneg:
  assumes "fibonacci_of n = Some v"
  shows "0 \<le> n"
proof (rule fibonacci_of.raw_induct[where P = "\<lambda>n v. 0 \<le> n", OF _ assms], goal_cases)
  case (1 f n v)
  show ?case
  proof (cases "n \<in> {0, 1}")
    case True
    then show ?thesis by auto
  next
    case False
    with 1(2) obtain a where "f (n - 1) = Some a"
      by (auto simp: bind_eq_Some_conv)
    from 1(1)[OF this] show ?thesis by simp
  qed
qed

lemma naive_diverges: "n < 0 \<Longrightarrow> fibonacci_of n = None"
  using naive_returns_nonneg[of n] by (cases "fibonacci_of n") auto

lemma memo_diverges: "reachable c \<Longrightarrow> n < 0 \<Longrightarrow> fibonacci_of_memo n c = None"
  using memo_result(3)[of n c] reachable_entries[of c]
  by (cases "fibonacci_of_memo n c") auto




text \<open>The demonstrations.\<close>

lemma fibonacci_list_total:
  "list_all (\<lambda>n. 0 \<le> n) ns \<Longrightarrow>
     fibonacci_list ns = Some (map (\<lambda>n. fibonacci_number (nat n)) ns)"
  by (induction ns) (simp_all add: naive_total)

lemma fibonacci_list_memo_total:
  "reachable c \<Longrightarrow> list_all (\<lambda>n. 0 \<le> n) ns \<Longrightarrow>
     \<exists>c'. fibonacci_list_memo ns c = Some (Inr (map (\<lambda>n. fibonacci_number (nat n)) ns), c')
       \<and> reachable c'"
proof (induction ns arbitrary: c)
  case Nil
  then show ?case by simp
next
  case (Cons n ns)
  from Cons.prems have n: "0 \<le> n" and ns: "list_all (\<lambda>n. 0 \<le> n) ns" by simp_all
  from memo_total[OF Cons.prems(1) n] obtain c1
    where s1: "fibonacci_of_memo n c = Some (Inr (fibonacci_number (nat n)), c1)" by blast
  have "reachable c1" by (rule reachable.call[OF Cons.prems(1) s1])
  from Cons.IH[OF this ns] obtain c2
    where s2: "fibonacci_list_memo ns c1 = Some (Inr (map (\<lambda>n. fibonacci_number (nat n)) ns), c2)"
      and r2: "reachable c2" by blast
  from s1 s2 r2 show ?case by simp
qed

lemma py_range_nonneg: "list_all (\<lambda>n. 0 \<le> n) (py_range k)"
  by (simp add: py_range_def list_all_iff)

section \<open>Claims on the Fibonacci functions\<close>

text \<open>
  C1. For every non-negative integer \<open>n\<close>, the memoized \<^verbatim>\<open>fibonacci_of\<close>, called on any
  state of its cache reachable from the initial dictionary \<^verbatim>\<open>{0: 0, 1: 1}\<close>, returns the
  same value as the naive recursive \<^verbatim>\<open>fibonacci_of\<close>, and that value is the \<open>n\<close>-th
  Fibonacci number.
\<close>

theorem memoized_agrees_with_naive:
  assumes "reachable c" and "0 \<le> n"
  shows "\<exists>v c'. fibonacci_of_memo n c = Some (Inr v, c') \<and> fibonacci_of n = Some v
           \<and> v = fibonacci_number (nat n)"
  using memo_total[OF assms] naive_total[OF assms(2)] by blast

theorem memoized_agrees_with_naive_witness:
  "reachable cache_init \<and> (0::int) \<le> 10 \<and>
   (\<exists>v c'. fibonacci_of_memo 10 cache_init = Some (Inr v, c') \<and> fibonacci_of 10 = Some v
      \<and> v = 55)"
proof -
  have "fibonacci_number (nat 10) = 55" by code_simp
  then show ?thesis
    using memoized_agrees_with_naive[OF reachable.initial, of 10] reachable.initial by simp
qed



text \<open>
  C6. Both versions of \<^verbatim>\<open>fibonacci_of\<close> return on every non-negative argument, the
  memoized one from every reachable state of its cache, and the two demonstrations
  \<^verbatim>\<open>[fibonacci_of(n) for n in range(35)]\<close> run to completion.
\<close>

theorem fibonacci_of_terminates:
  "(0 \<le> n \<longrightarrow> (\<exists>v. fibonacci_of n = Some v)) \<and>
   (reachable c \<and> 0 \<le> m \<longrightarrow> (\<exists>v c'. fibonacci_of_memo m c = Some (Inr v, c'))) \<and>
   (\<exists>vs. fibonacci_list (py_range 35) = Some vs) \<and>
   (\<exists>vs c'. fibonacci_list_memo (py_range 35) cache_init = Some (Inr vs, c'))"
proof (intro conjI impI)
  assume "0 \<le> n"
  then show "\<exists>v. fibonacci_of n = Some v" by (simp add: naive_total)
next
  assume "reachable c \<and> 0 \<le> m"
  then show "\<exists>v c'. fibonacci_of_memo m c = Some (Inr v, c')"
    using memo_total by blast
next
  show "\<exists>vs. fibonacci_list (py_range 35) = Some vs"
    using fibonacci_list_total[OF py_range_nonneg] by blast
next
  show "\<exists>vs c'. fibonacci_list_memo (py_range 35) cache_init = Some (Inr vs, c')"
    using fibonacci_list_memo_total[OF reachable.initial py_range_nonneg] by blast
qed

theorem fibonacci_of_terminates_witness:
  "(0::int) \<le> 34 \<and> (\<exists>v. fibonacci_of 34 = Some v) \<and>
   reachable cache_init \<and> (\<exists>v c'. fibonacci_of_memo 34 cache_init = Some (Inr v, c'))"
  using fibonacci_of_terminates[of 34 cache_init 34] reachable.initial by simp

section \<open>Lemmas on the numeric builtins\<close>

text \<open>
  The three outcomes of \<^verbatim>\<open>a / b\<close>: OverflowError, or else ZeroDivisionError on a zero
  divisor and the quotient on any other.
\<close>

lemma py_truediv_outcome:
  "py_truediv a b = Inl OverflowError \<or>
   py_truediv a b =
     (if num_value b = 0 then Inl ZeroDivisionError else Inr (num_value a / num_value b))"
  by (cases a; cases b) (simp_all add: py_truediv_def to_float_def num_value_def)

lemma py_truediv_overflow_int_int:
  "py_truediv (PyInt m) (PyInt n) = Inl OverflowError \<longleftrightarrow>
     n \<noteq> 0 \<and> float_overflow (real_of_int m / real_of_int n)"
  by (simp add: py_truediv_def)

lemma py_truediv_overflow_int_float:
  "py_truediv (PyInt m) (PyFloat y) = Inl OverflowError \<longleftrightarrow> float_overflow (real_of_int m)"
  by (simp add: py_truediv_def to_float_def)

lemma py_truediv_overflow_float_int:
  "py_truediv (PyFloat x) (PyInt n) = Inl OverflowError \<longleftrightarrow> float_overflow (real_of_int n)"
  by (simp add: py_truediv_def to_float_def)

lemma py_truediv_overflow_float_float:
  "py_truediv (PyFloat x) (PyFloat y) \<noteq> Inl OverflowError"
  by (simp add: py_truediv_def to_float_def)


lemma divide_numbers_no_zero_division: "fst (divide_numbers a b out) \<noteq> Inl ZeroDivisionError"
  by (auto simp: divide_numbers_def split: sum.splits)


lemma py_sum_acc: "foldl (+) (acc::int) xs = acc + sum_list xs"
  by (induction xs arbitrary: acc) simp_all

lemma py_sum_sum_list: "py_sum xs = sum_list xs"
  by (simp add: py_sum_def py_sum_acc)

lemma count_list_filter:
  "count_list (filter P xs) x = (if P x then count_list xs x else 0)"
  by (induction xs) auto

section \<open>Claims on the other snippets\<close>

text \<open>
  C2, as stated, fails on ints beyond the range of a float: \<^verbatim>\<open>divide_numbers(2 ** 1024, 1)\<close>
  has a divisor other than 0 and raises OverflowError, which the handler does not
  catch, and \<^verbatim>\<open>divide_numbers(2 ** 1024, 0.0)\<close> has a zero divisor and raises it too.
\<close>

theorem divide_numbers_overflow_escapes:
  "divide_numbers (PyInt (2 ^ 1024)) (PyInt 1) [] = (Inl OverflowError, []) \<and>
   divide_numbers (PyInt (2 ^ 1024)) (PyFloat 0) [] = (Inl OverflowError, [])"
  by (simp add: divide_numbers_def py_truediv_def to_float_def float_overflow_def)

text \<open>
  C2, amended. For every \<open>a\<close> and every \<open>b\<close> other than 0 for which \<^verbatim>\<open>a / b\<close> does not
  raise OverflowError, \<^verbatim>\<open>divide_numbers(a, b)\<close> returns \<^verbatim>\<open>a / b\<close>, raises nothing and
  prints nothing; for \<open>b = 0\<close>, when \<^verbatim>\<open>a / b\<close> does not raise OverflowError, it raises
  nothing, prints the error message and returns \<^verbatim>\<open>None\<close>. An OverflowError of \<^verbatim>\<open>a / b\<close>
  is not caught and reaches the caller; \<^verbatim>\<open>a / b\<close> raises it exactly when both operands
  are ints, \<open>b\<close> is not 0 and the quotient is beyond the range of a float, or when one
  operand is a float and the other an int beyond that range. No call lets a
  ZeroDivisionError reach its caller.
\<close>

theorem divide_numbers_catches_zero_division:
  "(num_value b \<noteq> 0 \<and> py_truediv a b \<noteq> Inl OverflowError \<longrightarrow>
      divide_numbers a b out = (Inr (Some (num_value a / num_value b)), out)) \<and>
   (num_value b1 = 0 \<and> py_truediv a1 b1 \<noteq> Inl OverflowError \<longrightarrow>
      divide_numbers a1 b1 out1 = (Inr None, out1 @ [zero_division_message])) \<and>
   (py_truediv a2 b2 = Inl OverflowError \<longrightarrow>
      divide_numbers a2 b2 out2 = (Inl OverflowError, out2)) \<and>
   (py_truediv (PyInt m) (PyInt n) = Inl OverflowError \<longleftrightarrow>
      n \<noteq> 0 \<and> float_overflow (real_of_int m / real_of_int n)) \<and>
   (py_truediv (PyInt m1) (PyFloat y1) = Inl OverflowError \<longleftrightarrow>
      float_overflow (real_of_int m1)) \<and>
   (py_truediv (PyFloat x2) (PyInt n2) = Inl OverflowError \<longleftrightarrow>
      float_overflow (real_of_int n2)) \<and>
   py_truediv (PyFloat x3) (PyFloat y3) \<noteq> Inl OverflowError \<and>
   fst (divide_numbers a3 b3 out3) \<noteq> Inl ZeroDivisionError"
proof (intro conjI impI)
  assume "num_value b \<noteq> 0 \<and> py_truediv a b \<noteq> Inl OverflowError"
  then show "divide_numbers a b out = (Inr (Some (num_value a / num_value b)), out)"
    using py_truediv_outcome[of a b] by (simp add: divide_numbers_def)
next
  assume "num_value b1 = 0 \<and> py_truediv a1 b1 \<noteq> Inl OverflowError"
  then show "divide_numbers a1 b1 out1 = (Inr None, out1 @ [zero_division_message])"
    using py_truediv_outcome[of a1 b1] by (simp add: divide_numbers_def py_print_def)
next
  assume "py_truediv a2 b2 = Inl OverflowError"
  then show "divide_numbers a2 b2 out2 = (Inl OverflowError, out2)"
    by (simp add: divide_numbers_def)
next
  show "py_truediv (PyInt m) (PyInt n) = Inl OverflowError \<longleftrightarrow>
      n \<noteq> 0 \<and> float_overflow (real_of_int m / real_of_int n)"
    by (rule py_truediv_overflow_int_int)
next
  show "py_truediv (PyInt m1) (PyFloat y1) = Inl OverflowError \<longleftrightarrow>
      float_overflow (real_of_int m1)"
    by (rule py_truediv_overflow_int_float)
next
  show "py_truediv (PyFloat x2) (PyInt n2) = Inl OverflowError \<longleftrightarrow>
      float_overflow (real_of_int n2)"
    by (rule py_truediv_overflow_float_int)
next
  show "py_truediv (PyFloat x3) (PyFloat y3) \<noteq> Inl OverflowError"
    by (rule py_truediv_overflow_float_float)
next
  show "fst (divide_numbers a3 b3 out3) \<noteq> Inl ZeroDivisionError"
    by (rule divide_numbers_no_zero_division)
qed

theorem divide_numbers_catches_zero_division_witness:
  "num_value (PyInt 2) \<noteq> 0 \<and> py_truediv (PyInt (2 ^ 1024)) (PyInt 2) \<noteq> Inl OverflowError \<and>
   divide_numbers (PyInt (2 ^ 1024)) (PyInt 2) [] = (Inr (Some (2 ^ 1023)), []) \<and>
   num_value (PyInt 0) = 0 \<and> py_truediv (PyInt 4) (PyInt 0) \<noteq> Inl OverflowError \<and>
   divide_numbers (PyInt 4) (PyInt 0) [] = (Inr None, [zero_division_message]) \<and>
   py_truediv (PyInt (2 ^ 1024)) (PyInt 1) = Inl OverflowError \<and>
   divide_numbers (PyInt (2 ^ 1024)) (PyInt 1) [] = (Inl OverflowError, [])"
proof -
  have h: "num_value (PyInt 2) \<noteq> 0" "py_truediv (PyInt (2 ^ 1024)) (PyInt 2) \<noteq> Inl OverflowError"
    "num_value (PyInt 0) = 0" "py_truediv (PyInt 4) (PyInt 0) \<noteq> Inl OverflowError"
    "py_truediv (PyInt (2 ^ 1024)) (PyInt 1) = Inl OverflowError"
    "num_value (PyInt (2 ^ 1024)) / num_value (PyInt 2) = 2 ^ 1023"
    by (simp_all add: num_value_def py_truediv_def float_overflow_def)
  note t = divide_numbers_catches_zero_division
    [where a = "PyInt (2 ^ 1024)" and b = "PyInt 2" and out = "[]"
       and ?a1.0 = "PyInt 4" and ?b1.0 = "PyInt 0" and ?out1.0 = "[]"
       and ?a2.0 = "PyInt (2 ^ 1024)" and ?b2.0 = "PyInt 1" and ?out2.0 = "[]"]
  from t h show ?thesis by simp
qed




text \<open>Closed examples of calls on the initial state, with the instance of the builtins.\<close>

lemma run_examples:
  "run example_builtins (Add_numbers_lq (PyNum (PyInt 2)) (PyNum (PyInt 3))) state_init =
     Some (Inr (IntObj 5), state_init)"
  "run example_builtins (Add_numbers_lq (PyNum (PyInt 2)) (PyStr ''3'')) state_init =
     Some (Inl TypeError, state_init)"
  "run example_builtins (Ca (PyNum (PyInt 12)) (PyNum (PyInt 20))) state_init =
     Some (Inr (IntObj 240), state_init)"
  "run example_builtins (Process [1, 2, 3, -1, -2, -3]) state_init =
     Some (Inr (IntObj 6), state_init)"
  "run example_builtins (Greet_print ''Alice'') state_init =
     Some (Inr NoneObj, state_init\<lparr>console_of := [''Hello, Alice!'']\<rparr>)"
  "run example_builtins Test_greet_capsys state_init = Some (Inr NoneObj, state_init)"
  "run example_builtins Test_greet state_init = Some (Inr NoneObj, state_init)"
  by (simp_all add: example_builtins_def state_init_def add_numbers_lq_def ca_def int_add_def
      int_mul_def IntObj_def process_def py_sum_def greet_print_def py_print_def
      test_greet_capsys_def readouterr_def ascii_strip_def ascii_space_def test_greet_def
      greet_testability_def)

text \<open>
  C5. The higher-quality \<^verbatim>\<open>greet\<close> of the testability section returns exactly
  \<^verbatim>\<open>"Hello, Alice!"\<close> on \<^verbatim>\<open>"Alice"\<close>, and its test \<^verbatim>\<open>test_greet\<close> passes.
\<close>

theorem greet_testability_alice:
  "greet_testability ''Alice'' = ''Hello, Alice!'' \<and> test_greet = Inr ()"
  by (simp add: greet_testability_def test_greet_def)

text \<open>
  C9. The higher-quality \<^verbatim>\<open>greet\<close> of the reusability section returns \<^verbatim>\<open>"Hello "\<close>, the
  name and \<^verbatim>\<open>"!"\<close>, with no comma, so \<^verbatim>\<open>"Hello Alice!"\<close> on \<^verbatim>\<open>"Alice"\<close>; the \<^verbatim>\<open>greet\<close> of
  the testability section returns \<^verbatim>\<open>"Hello, "\<close>, the name and \<^verbatim>\<open>"!"\<close>; on every name the
  two results differ. A name is the string of its UTF-8 bytes, of any length and with
  any bytes: the results differ at their sixth byte, a space against a comma, whatever
  follows.
\<close>

theorem greet_reusability_no_comma:
  "greet_reusability name = ''Hello '' @ name @ ''!'' \<and>
   greet_reusability ''Alice'' = ''Hello Alice!'' \<and>
   greet_testability name = ''Hello, '' @ name @ ''!'' \<and>
   greet_reusability name \<noteq> greet_testability name \<and>
   greet_reusability name ! 5 = CHR '' '' \<and> greet_testability name ! 5 = CHR '',''"
  by (simp add: greet_reusability_def greet_testability_def)

text \<open>
  C7. \<^verbatim>\<open>process(numbers)\<close> equals \<^verbatim>\<open>calculate_total(clean_data(numbers))\<close>;
  \<^verbatim>\<open>clean_data\<close> returns the non-negative elements of its input, each as often as it
  occurs there and in the original order (a subsequence of the input with nothing
  negative in it), and \<^verbatim>\<open>calculate_total\<close> returns the sum of its argument.
\<close>

theorem process_refactoring_preserves_behaviour:
  "process numbers = calculate_total (clean_data numbers) \<and>
   clean_data numbers = filter (\<lambda>x. 0 \<le> x) numbers \<and>
   subseq (clean_data numbers) numbers \<and>
   list_all (\<lambda>x. 0 \<le> x) (clean_data numbers) \<and>
   (0 \<le> x \<longrightarrow> count_list (clean_data numbers) x = count_list numbers x) \<and>
   calculate_total xs = sum_list xs \<and>
   process numbers = sum_list (filter (\<lambda>x. 0 \<le> x) numbers)"
  by (simp add: process_def calculate_total_def clean_data_def py_sum_sum_list
      count_list_filter list_all_iff)

theorem process_refactoring_preserves_behaviour_witness:
  "process [1, 2, 3, -1, -2, -3] = calculate_total (clean_data [1, 2, 3, -1, -2, -3]) \<and>
   clean_data [1, 2, 3, -1, -2, -3] = [1, 2, 3] \<and>
   (0::int) \<le> 2 \<and> count_list (clean_data [1, 2, 3, -1, -2, -3]) 2 = count_list [1, 2, 3, -1, -2, -3 :: int] 2 \<and>
   calculate_total [1, 2, 3] = 6 \<and> process [1, 2, 3, -1, -2, -3] = 6"
  using process_refactoring_preserves_behaviour[of "[1, 2, 3, -1, -2, -3]" 2 "[1, 2, 3]"]
  by simp

text \<open>
  C8, as stated, fails on an int beyond the range of a float: \<^verbatim>\<open>float(2 ** 1024)\<close> raises
  OverflowError, so \<^verbatim>\<open>add_numbers(2 ** 1024, 1)\<close> returns nothing although both
  arguments are numbers, and \<^verbatim>\<open>add_numbers(2 ** 1024, "a")\<close> raises OverflowError, not
  ValueError, although \<^verbatim>\<open>"a"\<close> cannot be parsed.
\<close>

theorem add_numbers_overflow:
  "add_numbers digits_literal (PyNum (PyInt (2 ^ 1024))) (PyNum (PyInt 1)) = Inl OverflowError \<and>
   add_numbers digits_literal (PyNum (PyInt (2 ^ 1024))) (PyStr ''a'') = Inl OverflowError \<and>
   digits_literal ''a'' = None"
  by (simp add: add_numbers_def py_float_def to_float_def float_overflow_def
      digits_literal_def digit_value_def)

text \<open>
  C8, amended. \<^verbatim>\<open>add_numbers(a, b)\<close> returns \<^verbatim>\<open>float(a) + float(b)\<close> whenever both
  conversions succeed, which they do on a float, on an int of magnitude below
  \<open>2 ^ 1024 - 2 ^ 970\<close> and on a string that parses as a float (so \<^verbatim>\<open>add_numbers(2, "3")\<close>
  returns 5.0). It raises ValueError when \<^verbatim>\<open>a\<close> is a string that does not parse, and
  when \<^verbatim>\<open>a\<close> converts and \<^verbatim>\<open>b\<close> is a string that does not parse, so
  \<^verbatim>\<open>add_numbers(2, "a")\<close> raises. It raises OverflowError when \<^verbatim>\<open>a\<close> is an int beyond
  the range of a float.
\<close>

theorem add_numbers_converts_or_raises:
  "(py_float parse a = Inr x \<and> py_float parse b = Inr y \<longrightarrow>
      add_numbers parse a b = Inr (x + y)) \<and>
   py_float parse (PyNum (PyFloat z)) = Inr z \<and>
   (\<not> float_overflow (real_of_int k) \<longrightarrow>
      py_float parse (PyNum (PyInt k)) = Inr (real_of_int k)) \<and>
   (parse s = Some w \<longrightarrow> py_float parse (PyStr s) = Inr w) \<and>
   (parse s1 = None \<longrightarrow> add_numbers parse (PyStr s1) b1 = Inl ValueError) \<and>
   (py_float parse a2 = Inr x2 \<and> parse s2 = None \<longrightarrow>
      add_numbers parse a2 (PyStr s2) = Inl ValueError) \<and>
   (parse ''3'' = Some 3 \<longrightarrow>
      add_numbers parse (PyNum (PyInt 2)) (PyStr ''3'') = Inr 5) \<and>
   (parse ''a'' = None \<longrightarrow>
      add_numbers parse (PyNum (PyInt 2)) (PyStr ''a'') = Inl ValueError) \<and>
   (float_overflow (real_of_int k3) \<longrightarrow>
      add_numbers parse (PyNum (PyInt k3)) b3 = Inl OverflowError)"
  by (simp add: add_numbers_def py_float_def to_float_def float_overflow_def)

theorem add_numbers_converts_or_raises_witness:
  "py_float digits_literal (PyNum (PyInt 2)) = Inr 2 \<and>
   py_float digits_literal (PyStr ''3'') = Inr 3 \<and>
   add_numbers digits_literal (PyNum (PyInt 2)) (PyStr ''3'') = Inr 5 \<and>
   \<not> float_overflow (real_of_int 2) \<and>
   digits_literal ''3'' = Some 3 \<and>
   digits_literal ''a'' = None \<and>
   add_numbers digits_literal (PyStr ''a'') (PyNum (PyInt 2)) = Inl ValueError \<and>
   add_numbers digits_literal (PyNum (PyInt 2)) (PyStr ''a'') = Inl ValueError \<and>
   float_overflow (real_of_int (2 ^ 1024)) \<and>
   add_numbers digits_literal (PyNum (PyInt (2 ^ 1024))) (PyNum (PyInt 2)) = Inl OverflowError"
proof -
  have h: "digits_literal ''3'' = Some 3" "digits_literal ''a'' = None"
    by (simp_all add: digits_literal_def digit_value_def)
  have o: "\<not> float_overflow (real_of_int 2)" "float_overflow (real_of_int (2 ^ 1024))"
    by (simp_all add: float_overflow_def)
  note t = add_numbers_converts_or_raises
    [of digits_literal "PyNum (PyInt 2)" 2 "PyStr ''3''" 3 0 2 "''3''" 3 "''a''" "PyNum (PyInt 2)"
      "PyNum (PyInt 2)" 2 "''a''" "2 ^ 1024" "PyNum (PyInt 2)"]
  from t h o show ?thesis by simp
qed

end
